theory Spec2Isabelle
  imports Complex_Main "HOL-Library.Sublist"
begin

section \<open>The sweep-job configuration document\<close>

text \<open>
  The YAML document \<^verbatim>\<open>src/unnamed/part_000\<close> is static data. Its mappings are
  records, the \<^verbatim>\<open>search_space\<close> mapping (whose keys are parameter names) is an
  association list in document order, and the two kinds of distribution are a
  datatype. The decimal scalars \<^verbatim>\<open>0.01\<close> and \<^verbatim>\<open>0.9\<close> are the rationals they
  denote.
\<close>

datatype distribution =
  Uniform (min_value: rat) (max_value: rat)
| Choice (choice_values: "string list")

record trial =
  code :: string
  command :: string
  environment :: string

record job_input =
  input_type :: string
  path :: string

record objective =
  goal :: string
  primary_metric :: string

record limits =
  max_total_trials :: nat
  max_concurrent_trials :: nat
  timeout :: nat

record sweep_job =
  schema :: string
  job_type :: string
  job_trial :: trial
  inputs :: "(string \<times> job_input) list"
  compute :: string
  sampling_algorithm :: string
  search_space :: "(string \<times> distribution) list"
  job_objective :: objective
  job_limits :: limits
  display_name :: string
  experiment_name :: string
  description :: string

definition lightgbm_iris_sweep :: sweep_job where
  "lightgbm_iris_sweep =
    \<lparr> schema = ''https://azuremlschemas.azureedge.net/latest/sweepJob.schema.json'',
      job_type = ''sweep'',
      job_trial =
        \<lparr> code = ''src'',
          command = ''python main.py --iris-csv ${{inputs.iris_csv}} --learning-rate ${{search_space.learning_rate}} --boosting ${{search_space.boosting}}'',
          environment = ''azureml:AzureML-lightgbm-3.3@latest'' \<rparr>,
      inputs =
        [(''iris_csv'',
          \<lparr> input_type = ''uri_file'',
            path = ''https://azuremlexamples.blob.core.windows.net/datasets/iris.csv'' \<rparr>)],
      compute = ''azureml:cpu-cluster'',
      sampling_algorithm = ''random'',
      search_space =
        [(''learning_rate'', Uniform (1 / 100) (9 / 10)),
         (''boosting'', Choice [''gbdt'', ''dart''])],
      job_objective = \<lparr> goal = ''minimize'', primary_metric = ''test-multi_logloss'' \<rparr>,
      job_limits = \<lparr> max_total_trials = 20, max_concurrent_trials = 10, timeout = 7200 \<rparr>,
      display_name = ''lightgbm-iris-sweep-example'',
      experiment_name = ''lightgbm-iris-sweep-example'',
      description = ''Run a hyperparameter sweep job for LightGBM on Iris dataset.'' \<rparr>"

text \<open>The uniform distributions of a search space, in document order.\<close>

fun uniform_bounds :: "(string \<times> distribution) list \<Rightarrow> (string \<times> rat \<times> rat) list" where
  "uniform_bounds [] = []"
| "uniform_bounds ((k, Uniform lo hi) # ds) = (k, lo, hi) # uniform_bounds ds"
| "uniform_bounds ((k, Choice vs) # ds) = uniform_bounds ds"

section \<open>The managed-network notebook: data\<close>

text \<open>
  The notebook \<^verbatim>\<open>workspace-managed-network.ipynb\<close> builds entities of the SDK and
  passes them to methods of \<^verbatim>\<open>ml_client\<close>. The classes of the entities are not in
  the source. An entity is modelled by the attributes that the notebook passes to
  its constructor, reads or assigns, and by nothing else: which further attributes
  a constructor sets, and to what, is the SDK's affair.
\<close>

datatype IsolationMode = DISABLED | ALLOW_INTERNET_OUTBOUND | ALLOW_ONLY_APPROVED_OUTBOUND

text \<open>
  An outbound rule is one of the three constructor calls of sections 3.1 to 3.3,
  with the keyword arguments that the notebook passes.
\<close>

datatype OutboundRule =
    ServiceTagDestination
      (rule_name: string) (service_tag: string) (protocol: string) (port_ranges: string)
  | FqdnDestination
      (rule_name: string) (destination: string)
  | PrivateEndpointDestination
      (rule_name: string) (service_resource_id: "string option") (subresource_target: string)

text \<open>
  \<^verbatim>\<open>storage_account\<close> is read in section 3.3 from a workspace that the service
  returned; the notebook passes none to \<^verbatim>\<open>Workspace(...)\<close>, which is \<open>None\<close> here.
\<close>

record ManagedNetwork =
  isolation_mode :: IsolationMode
  outbound_rules :: "OutboundRule list"

record Workspace =
  name :: string
  location :: string
  managed_network :: "ManagedNetwork option"
  storage_account :: "string option"

section \<open>The management API behind \<^verbatim>\<open>ml_client\<close>\<close>

text \<open>
  The SDK and the service behind it are not part of the repository: they are a
  parameter, one handler for each method the notebook calls. A handler takes the
  arguments and the state of the service, and gives the outcome (\<open>Inl\<close> an error of
  the service, \<open>Inr\<close> the result) and the next state. The type of errors \<open>'e\<close> and
  of the provisioning result \<open>'p\<close> are left open.
\<close>

record ('s, 'e, 'p) ManagementAPI =
  api_workspace_create :: "Workspace \<Rightarrow> 's \<Rightarrow> ('e + Workspace) \<times> 's"
  api_workspace_get :: "string \<Rightarrow> 's \<Rightarrow> ('e + Workspace) \<times> 's"
  api_workspace_update :: "Workspace \<Rightarrow> 's \<Rightarrow> ('e + Workspace) \<times> 's"
  api_provision_network :: "string \<Rightarrow> 's \<Rightarrow> ('e + 'p) \<times> 's"
  api_outbound_rule_create :: "string \<Rightarrow> OutboundRule \<Rightarrow> 's \<Rightarrow> ('e + OutboundRule) \<times> 's"
  api_workspace_delete :: "string \<Rightarrow> bool \<Rightarrow> 's \<Rightarrow> ('e + unit) \<times> 's"

text \<open>What the client asks of the service, and what it gets back.\<close>

datatype request =
    WorkspaceCreate Workspace
  | WorkspaceGet string
  | WorkspaceUpdate Workspace
  | WorkspaceProvisionNetwork string
  | OutboundRuleCreate string OutboundRule
  | WorkspaceDelete string bool

datatype ('e, 'p) reply =
    Raised 'e
  | ReturnedWorkspace Workspace
  | ReturnedProvisionStatus 'p
  | ReturnedRule OutboundRule
  | ReturnedNone

text \<open>
  The trace of a run: an operation is in flight from its \<open>Started\<close> event to its
  \<open>Finished\<close> event.
\<close>

datatype ('e, 'p) event =
    Started request
  | Finished request "('e, 'p) reply"

datatype 'p printed = PrintedWorkspace Workspace | PrintedProvisionStatus 'p

record ('s, 'e, 'p) world =
  service :: 's
  events :: "('e, 'p) event list"
  stdout :: "'p printed list"

definition initial :: "'s \<Rightarrow> ('s, 'e, 'p) world" where
  "initial s = \<lparr> service = s, events = [], stdout = [] \<rparr>"

section \<open>Long-running operations\<close>

text \<open>
  A \<^verbatim>\<open>begin_...\<close> method starts an operation and returns a poller at once;
  \<^verbatim>\<open>.result()\<close> blocks until the operation has completed and returns its outcome,
  or raises its error. The poller holds the request and the handler that completes
  it. The handler acts on the state of the service when the operation completes,
  and the trace records the start and the completion apart, so that a program
  which starts a second operation before it awaits the first has a trace that
  shows it.
\<close>

datatype ('s, 'e, 'p, 'a) LROPoller =
  LROPoller request "'s \<Rightarrow> ('e + 'a) \<times> 's" "'a \<Rightarrow> ('e, 'p) reply"

definition begin_operation ::
  "request \<Rightarrow> ('s \<Rightarrow> ('e + 'a) \<times> 's) \<Rightarrow> ('a \<Rightarrow> ('e, 'p) reply) \<Rightarrow>
   ('s, 'e, 'p) world \<Rightarrow> ('s, 'e, 'p, 'a) LROPoller \<times> ('s, 'e, 'p) world" where
  "begin_operation req run as_reply w =
     (LROPoller req run as_reply, w\<lparr>events := events w @ [Started req]\<rparr>)"

definition reply_of :: "('a \<Rightarrow> ('e, 'p) reply) \<Rightarrow> 'e + 'a \<Rightarrow> ('e, 'p) reply" where
  "reply_of as_reply out = (case out of Inl e \<Rightarrow> Raised e | Inr a \<Rightarrow> as_reply a)"

fun result ::
  "('s, 'e, 'p, 'a) LROPoller \<Rightarrow> ('s, 'e, 'p) world \<Rightarrow> ('e + 'a) \<times> ('s, 'e, 'p) world" where
  "result (LROPoller req run as_reply) w =
     (case run (service w) of
        (out, s') \<Rightarrow>
          (out, w\<lparr>service := s', events := events w @ [Finished req (reply_of as_reply out)]\<rparr>))"

text \<open>The methods of \<^verbatim>\<open>ml_client\<close> that the notebook calls.\<close>

definition workspaces_begin_create ::
  "('s, 'e, 'p) ManagementAPI \<Rightarrow> Workspace \<Rightarrow> ('s, 'e, 'p) world \<Rightarrow>
   ('s, 'e, 'p, Workspace) LROPoller \<times> ('s, 'e, 'p) world" where
  "workspaces_begin_create api ws =
     begin_operation (WorkspaceCreate ws) (api_workspace_create api ws) ReturnedWorkspace"

definition workspaces_get ::
  "('s, 'e, 'p) ManagementAPI \<Rightarrow> string \<Rightarrow> ('s, 'e, 'p) world \<Rightarrow>
   ('e + Workspace) \<times> ('s, 'e, 'p) world" where
  "workspaces_get api n w =
     (case begin_operation (WorkspaceGet n) (api_workspace_get api n) ReturnedWorkspace w of
        (poller, w') \<Rightarrow> result poller w')"

definition workspaces_begin_update ::
  "('s, 'e, 'p) ManagementAPI \<Rightarrow> Workspace \<Rightarrow> ('s, 'e, 'p) world \<Rightarrow>
   ('s, 'e, 'p, Workspace) LROPoller \<times> ('s, 'e, 'p) world" where
  "workspaces_begin_update api ws =
     begin_operation (WorkspaceUpdate ws) (api_workspace_update api ws) ReturnedWorkspace"

definition workspaces_begin_provision_network ::
  "('s, 'e, 'p) ManagementAPI \<Rightarrow> string \<Rightarrow> ('s, 'e, 'p) world \<Rightarrow>
   ('s, 'e, 'p, 'p) LROPoller \<times> ('s, 'e, 'p) world" where
  "workspaces_begin_provision_network api workspace_name =
     begin_operation (WorkspaceProvisionNetwork workspace_name)
       (api_provision_network api workspace_name) ReturnedProvisionStatus"

definition workspace_outbound_rules_begin_create ::
  "('s, 'e, 'p) ManagementAPI \<Rightarrow> string \<Rightarrow> OutboundRule \<Rightarrow> ('s, 'e, 'p) world \<Rightarrow>
   ('s, 'e, 'p, OutboundRule) LROPoller \<times> ('s, 'e, 'p) world" where
  "workspace_outbound_rules_begin_create api workspace_name rule =
     begin_operation (OutboundRuleCreate workspace_name rule)
       (api_outbound_rule_create api workspace_name rule) ReturnedRule"

definition workspaces_begin_delete ::
  "('s, 'e, 'p) ManagementAPI \<Rightarrow> string \<Rightarrow> bool \<Rightarrow> ('s, 'e, 'p) world \<Rightarrow>
   ('s, 'e, 'p, unit) LROPoller \<times> ('s, 'e, 'p) world" where
  "workspaces_begin_delete api n delete_dependent_resources =
     begin_operation (WorkspaceDelete n delete_dependent_resources)
       (api_workspace_delete api n delete_dependent_resources) (\<lambda>_. ReturnedNone)"

section \<open>The operations of the notebook\<close>

text \<open>
  Every long-running operation of the notebook has the shape
  \<^verbatim>\<open>ml_client. ... .begin_...(...).result()\<close>: the poller is awaited in the expression
  that creates it. Each of the six expressions below is written in the notebook
  with these arguments; the names are those the specification gives to the
  operations of the client.
\<close>

definition await ::
  "(('s, 'e, 'p) world \<Rightarrow> ('s, 'e, 'p, 'a) LROPoller \<times> ('s, 'e, 'p) world) \<Rightarrow>
   ('s, 'e, 'p) world \<Rightarrow> ('e + 'a) \<times> ('s, 'e, 'p) world" where
  "await start w = (case start w of (poller, w') \<Rightarrow> result poller w')"

text \<open>\<^verbatim>\<open>ml_client.workspaces.begin_create(ws).result()\<close>\<close>

definition createWorkspace ::
  "('s, 'e, 'p) ManagementAPI \<Rightarrow> Workspace \<Rightarrow> ('s, 'e, 'p) world \<Rightarrow>
   ('e + Workspace) \<times> ('s, 'e, 'p) world" where
  "createWorkspace api ws = await (workspaces_begin_create api ws)"

text \<open>\<^verbatim>\<open>ml_client.workspaces.get(n)\<close>\<close>

definition getWorkspace ::
  "('s, 'e, 'p) ManagementAPI \<Rightarrow> string \<Rightarrow> ('s, 'e, 'p) world \<Rightarrow>
   ('e + Workspace) \<times> ('s, 'e, 'p) world" where
  "getWorkspace api n = workspaces_get api n"

text \<open>\<^verbatim>\<open>ml_client.workspaces.begin_update(ws).result()\<close>\<close>

definition updateIsolationMode ::
  "('s, 'e, 'p) ManagementAPI \<Rightarrow> Workspace \<Rightarrow> ('s, 'e, 'p) world \<Rightarrow>
   ('e + Workspace) \<times> ('s, 'e, 'p) world" where
  "updateIsolationMode api ws = await (workspaces_begin_update api ws)"

text \<open>\<^verbatim>\<open>ml_client.workspaces.begin_provision_network(workspace_name=n).result()\<close>\<close>

definition provisionNetwork ::
  "('s, 'e, 'p) ManagementAPI \<Rightarrow> string \<Rightarrow> ('s, 'e, 'p) world \<Rightarrow>
   ('e + 'p) \<times> ('s, 'e, 'p) world" where
  "provisionNetwork api workspace_name =
     await (workspaces_begin_provision_network api workspace_name)"

text \<open>\<^verbatim>\<open>ml_client.workspace_outbound_rules.begin_create(workspace_name=n, rule=r).result()\<close>\<close>

definition addOutboundRule ::
  "('s, 'e, 'p) ManagementAPI \<Rightarrow> string \<Rightarrow> OutboundRule \<Rightarrow> ('s, 'e, 'p) world \<Rightarrow>
   ('e + OutboundRule) \<times> ('s, 'e, 'p) world" where
  "addOutboundRule api workspace_name rule =
     await (workspace_outbound_rules_begin_create api workspace_name rule)"

text \<open>\<^verbatim>\<open>ml_client.workspaces.begin_delete(name=n, delete_dependent_resources=True).result()\<close>\<close>

definition deleteWorkspace ::
  "('s, 'e, 'p) ManagementAPI \<Rightarrow> string \<Rightarrow> ('s, 'e, 'p) world \<Rightarrow>
   ('e + unit) \<times> ('s, 'e, 'p) world" where
  "deleteWorkspace api n = await (workspaces_begin_delete api n True)"

section \<open>The cells of the notebook\<close>

text \<open>
  A statement either raises (\<open>Inl\<close>) or yields a value (\<open>Inr\<close>). An error of the
  service is raised as it is; \<^verbatim>\<open>AttributeError\<close> is what Python raises when an
  attribute of \<^verbatim>\<open>None\<close> is assigned. The notebook has no \<^verbatim>\<open>try\<close>: the first exception
  ends the run.
\<close>

datatype 'e exception = ServiceError 'e | AttributeError

definition and_then ::
  "('w \<Rightarrow> ('x + 'a) \<times> 'w) \<Rightarrow> ('a \<Rightarrow> 'w \<Rightarrow> ('x + 'b) \<times> 'w) \<Rightarrow> 'w \<Rightarrow> ('x + 'b) \<times> 'w" where
  "and_then m f w = (case m w of (Inl e, w') \<Rightarrow> (Inl e, w') | (Inr a, w') \<Rightarrow> f a w')"

definition return :: "'a \<Rightarrow> 'w \<Rightarrow> ('x + 'a) \<times> 'w" where
  "return a w = (Inr a, w)"

definition raise :: "'x \<Rightarrow> 'w \<Rightarrow> ('x + 'a) \<times> 'w" where
  "raise e w = (Inl e, w)"

definition call ::
  "('w \<Rightarrow> ('e + 'a) \<times> 'w) \<Rightarrow> 'w \<Rightarrow> ('e exception + 'a) \<times> 'w" where
  "call m w = (case m w of (Inl e, w') \<Rightarrow> (Inl (ServiceError e), w') | (Inr a, w') \<Rightarrow> (Inr a, w'))"

definition print ::
  "'p printed \<Rightarrow> ('s, 'e, 'p) world \<Rightarrow> ('x + unit) \<times> ('s, 'e, 'p) world" where
  "print x w = (Inr (), w\<lparr>stdout := stdout w @ [x]\<rparr>)"

text \<open>\<^verbatim>\<open>ws.managed_network.isolation_mode = mode\<close>\<close>

definition set_isolation_mode ::
  "Workspace \<Rightarrow> IsolationMode \<Rightarrow> 'w \<Rightarrow> ('e exception + Workspace) \<times> 'w" where
  "set_isolation_mode ws mode =
     (case managed_network ws of
        None \<Rightarrow> raise AttributeError
      | Some mn \<Rightarrow> return (ws\<lparr>managed_network := Some (mn\<lparr>isolation_mode := mode\<rparr>)\<rparr>))"

text \<open>Section 1.3: the managed network settings.\<close>

definition managed_network_1_3 :: ManagedNetwork where
  "managed_network_1_3 =
     \<lparr> isolation_mode = ALLOW_INTERNET_OUTBOUND, outbound_rules = [] \<rparr>"

text \<open>
  Section 1.4. \<open>now\<close> is \<^verbatim>\<open>datetime.datetime.now().strftime("%Y%m%d%H%M")\<close>. The cell
  leaves \<^verbatim>\<open>mvnet_workspace_name\<close> and \<^verbatim>\<open>ws_mvnet\<close> to the cells below.
\<close>

definition cell_1_4 ::
  "('s, 'e, 'p) ManagementAPI \<Rightarrow> string \<Rightarrow> ('s, 'e, 'p) world \<Rightarrow>
   ('e exception + string \<times> Workspace) \<times> ('s, 'e, 'p) world" where
  "cell_1_4 api now =
     (let mvnet_workspace_name = ''mlw-mvnet-prod-'' @ now;
          ws_mvnet = \<lparr> name = mvnet_workspace_name, location = ''eastus'',
                       managed_network = Some managed_network_1_3, storage_account = None \<rparr>
      in and_then (call (createWorkspace api ws_mvnet)) (\<lambda>ws_mvnet.
         and_then (print (PrintedWorkspace ws_mvnet)) (\<lambda>_.
         return (mvnet_workspace_name, ws_mvnet))))"

text \<open>Section 1.5. The cell leaves \<^verbatim>\<open>ws_mvnet\<close> and \<^verbatim>\<open>aoao_ws\<close>.\<close>

definition cell_1_5 ::
  "('s, 'e, 'p) ManagementAPI \<Rightarrow> string \<Rightarrow> ('s, 'e, 'p) world \<Rightarrow>
   ('e exception + Workspace \<times> Workspace) \<times> ('s, 'e, 'p) world" where
  "cell_1_5 api mvnet_workspace_name =
     and_then (call (getWorkspace api mvnet_workspace_name)) (\<lambda>ws_mvnet.
     and_then (set_isolation_mode ws_mvnet ALLOW_ONLY_APPROVED_OUTBOUND) (\<lambda>ws_mvnet.
     and_then (call (updateIsolationMode api ws_mvnet)) (\<lambda>aoao_ws.
     and_then (print (PrintedWorkspace aoao_ws)) (\<lambda>_.
     return (ws_mvnet, aoao_ws)))))"

text \<open>Section 2.\<close>

definition cell_2 ::
  "('s, 'e, 'p) ManagementAPI \<Rightarrow> string \<Rightarrow> ('s, 'e, 'p) world \<Rightarrow>
   ('e exception + 'p) \<times> ('s, 'e, 'p) world" where
  "cell_2 api mvnet_workspace_name =
     and_then (call (provisionNetwork api mvnet_workspace_name)) (\<lambda>ws_provisioned.
     and_then (print (PrintedProvisionStatus ws_provisioned)) (\<lambda>_.
     return ws_provisioned))"

text \<open>Sections 3.1 to 3.3. The value of each cell is the rule that the service returns.\<close>

definition servicetagrule :: OutboundRule where
  "servicetagrule =
     ServiceTagDestination ''servicetagrule'' ''AzureCloud'' ''TCP'' ''80, 8080''"

definition fqdnrule :: OutboundRule where
  "fqdnrule = FqdnDestination ''fqdnrule'' ''pypi.org''"

definition privateendpointrule :: "Workspace \<Rightarrow> OutboundRule" where
  "privateendpointrule ws_mvnet =
     PrivateEndpointDestination ''privateendpointrule'' (storage_account ws_mvnet) ''table''"

definition cell_3_1 ::
  "('s, 'e, 'p) ManagementAPI \<Rightarrow> string \<Rightarrow> ('s, 'e, 'p) world \<Rightarrow>
   ('e exception + OutboundRule) \<times> ('s, 'e, 'p) world" where
  "cell_3_1 api mvnet_workspace_name =
     call (addOutboundRule api mvnet_workspace_name servicetagrule)"

definition cell_3_2 ::
  "('s, 'e, 'p) ManagementAPI \<Rightarrow> string \<Rightarrow> ('s, 'e, 'p) world \<Rightarrow>
   ('e exception + OutboundRule) \<times> ('s, 'e, 'p) world" where
  "cell_3_2 api mvnet_workspace_name =
     call (addOutboundRule api mvnet_workspace_name fqdnrule)"

definition cell_3_3 ::
  "('s, 'e, 'p) ManagementAPI \<Rightarrow> string \<Rightarrow> Workspace \<Rightarrow> ('s, 'e, 'p) world \<Rightarrow>
   ('e exception + OutboundRule) \<times> ('s, 'e, 'p) world" where
  "cell_3_3 api mvnet_workspace_name ws_mvnet =
     call (addOutboundRule api mvnet_workspace_name (privateendpointrule ws_mvnet))"

text \<open>Section 3.4.\<close>

definition cell_3_4 ::
  "('s, 'e, 'p) ManagementAPI \<Rightarrow> string \<Rightarrow> ('s, 'e, 'p) world \<Rightarrow>
   ('e exception + Workspace) \<times> ('s, 'e, 'p) world" where
  "cell_3_4 api mvnet_workspace_name =
     and_then (call (getWorkspace api mvnet_workspace_name)) (\<lambda>ws_mvnet.
     and_then (print (PrintedWorkspace ws_mvnet)) (\<lambda>_.
     return ws_mvnet))"

text \<open>Clean up resources.\<close>

definition cell_delete ::
  "('s, 'e, 'p) ManagementAPI \<Rightarrow> string \<Rightarrow> ('s, 'e, 'p) world \<Rightarrow>
   ('e exception + unit) \<times> ('s, 'e, 'p) world" where
  "cell_delete api mvnet_workspace_name = call (deleteWorkspace api mvnet_workspace_name)"

text \<open>
  The notebook, its cells run from top to bottom; a cell that raises ends the run.
  The variables that a cell assigns are passed to the cells that read them.
\<close>

definition notebook ::
  "('s, 'e, 'p) ManagementAPI \<Rightarrow> string \<Rightarrow> ('s, 'e, 'p) world \<Rightarrow>
   ('e exception + unit) \<times> ('s, 'e, 'p) world" where
  "notebook api now =
     and_then (cell_1_4 api now) (\<lambda>(mvnet_workspace_name, ws_mvnet).
     and_then (cell_1_5 api mvnet_workspace_name) (\<lambda>(ws_mvnet, aoao_ws).
     and_then (cell_2 api mvnet_workspace_name) (\<lambda>ws_provisioned.
     and_then (cell_3_1 api mvnet_workspace_name) (\<lambda>_.
     and_then (cell_3_2 api mvnet_workspace_name) (\<lambda>_.
     and_then (cell_3_3 api mvnet_workspace_name ws_mvnet) (\<lambda>_.
     and_then (cell_3_4 api mvnet_workspace_name) (\<lambda>ws_mvnet.
     cell_delete api mvnet_workspace_name)))))))"

section \<open>Observations on a trace\<close>

text \<open>The requests of a trace, in the order they were started.\<close>

fun issued :: "('e, 'p) event list \<Rightarrow> request list" where
  "issued [] = []"
| "issued (Started req # es) = req # issued es"
| "issued (Finished req rep # es) = issued es"

text \<open>The operations in flight after a trace: started and not finished.\<close>

fun in_flight_after :: "request list \<Rightarrow> ('e, 'p) event list \<Rightarrow> request list" where
  "in_flight_after pending [] = pending"
| "in_flight_after pending (Started req # es) = in_flight_after (pending @ [req]) es"
| "in_flight_after pending (Finished req rep # es) = in_flight_after (remove1 req pending) es"

definition in_flight :: "('e, 'p) event list \<Rightarrow> request list" where
  "in_flight es = in_flight_after [] es"

text \<open>A trace is sequential when every operation finishes right after it has started.\<close>

fun sequential :: "('e, 'p) event list \<Rightarrow> bool" where
  "sequential [] = True"
| "sequential (Started req # Finished req' rep # es) = (req = req' \<and> sequential es)"
| "sequential es = False"

datatype operation =
    BeginCreate
  | Get
  | BeginUpdate
  | BeginProvisionNetwork
  | BeginCreateRule string
  | BeginDelete

fun operation_of :: "request \<Rightarrow> operation" where
  "operation_of (WorkspaceCreate ws) = BeginCreate"
| "operation_of (WorkspaceGet n) = Get"
| "operation_of (WorkspaceUpdate ws) = BeginUpdate"
| "operation_of (WorkspaceProvisionNetwork n) = BeginProvisionNetwork"
| "operation_of (OutboundRuleCreate n r) = BeginCreateRule (rule_name r)"
| "operation_of (WorkspaceDelete n d) = BeginDelete"

text \<open>The operations of the notebook in the order of its cells.\<close>

definition reference_order :: "operation list" where
  "reference_order =
     [BeginCreate, Get, BeginUpdate, BeginProvisionNetwork,
      BeginCreateRule ''servicetagrule'', BeginCreateRule ''fqdnrule'',
      BeginCreateRule ''privateendpointrule'', Get, BeginDelete]"

section \<open>Statements about operations and cells\<close>

text \<open>
  What one awaited method call of the notebook does to the world, for a handler
  that stands for the method: the caller gets the outcome that the handler gives on
  the current state of the service, the service is left in the state the handler
  gives, the trace grows by the request and its reply, and nothing is printed.
\<close>

definition relays_one_call ::
  "(('s, 'e, 'p) world \<Rightarrow> ('e + 'a) \<times> ('s, 'e, 'p) world) \<Rightarrow> request \<Rightarrow>
   ('s \<Rightarrow> ('e + 'a) \<times> 's) \<Rightarrow> ('a \<Rightarrow> ('e, 'p) reply) \<Rightarrow> bool" where
  "relays_one_call operation req handler as_reply \<longleftrightarrow>
     (\<forall>w. fst (operation w) = fst (handler (service w))
        \<and> service (snd (operation w)) = snd (handler (service w))
        \<and> events (snd (operation w)) =
            events w @ [Started req, Finished req (reply_of as_reply (fst (handler (service w))))]
        \<and> stdout (snd (operation w)) = stdout w)"

text \<open>
  A statement performs the operations \<open>ops\<close> when a run that returns has issued
  exactly \<open>ops\<close>, in this order, and a run that raises has issued the first few of
  them.
\<close>

definition operations_of :: "('s, 'e, 'p) world \<Rightarrow> operation list" where
  "operations_of w = map operation_of (issued (events w))"

definition performs ::
  "(('s, 'e, 'p) world \<Rightarrow> ('x + 'a) \<times> ('s, 'e, 'p) world) \<Rightarrow> operation list \<Rightarrow> bool" where
  "performs m ops \<longleftrightarrow>
     (\<forall>w. case fst (m w) of
            Inr a \<Rightarrow> operations_of (snd (m w)) = operations_of w @ ops
          | Inl e \<Rightarrow> (\<exists>xs. prefix xs ops \<and> operations_of (snd (m w)) = operations_of w @ xs))"

definition preserves ::
  "(('e, 'p) event list \<Rightarrow> bool) \<Rightarrow>
   (('s, 'e, 'p) world \<Rightarrow> ('x + 'a) \<times> ('s, 'e, 'p) world) \<Rightarrow> bool" where
  "preserves P m \<longleftrightarrow> (\<forall>w. P (events w) \<longrightarrow> P (events (snd (m w))))"

section \<open>A sample service\<close>

text \<open>
  A small service to run the notebook on: it keeps at most one workspace, gives a
  created workspace a storage account, stores the rules it is given, and fails on
  a workspace it does not have.
\<close>

definition sample_lookup ::
  "string \<Rightarrow> Workspace option \<Rightarrow> (Workspace \<Rightarrow> (string + 'a) \<times> Workspace option) \<Rightarrow>
   (string + 'a) \<times> Workspace option" where
  "sample_lookup n s f =
     (case s of
        None \<Rightarrow> (Inl ''ResourceNotFound'', s)
      | Some ws \<Rightarrow> if name ws = n then f ws else (Inl ''ResourceNotFound'', s))"

definition sample_api :: "(Workspace option, string, string) ManagementAPI" where
  "sample_api =
     \<lparr> api_workspace_create = (\<lambda>ws s.
         (let ws' = ws\<lparr>storage_account := Some ''storage''\<rparr> in (Inr ws', Some ws'))),
       api_workspace_get = (\<lambda>n s. sample_lookup n s (\<lambda>ws. (Inr ws, s))),
       api_workspace_update = (\<lambda>ws s. sample_lookup (name ws) s (\<lambda>_. (Inr ws, Some ws))),
       api_provision_network = (\<lambda>n s. sample_lookup n s (\<lambda>_. (Inr ''Active'', s))),
       api_outbound_rule_create = (\<lambda>n r s. sample_lookup n s (\<lambda>ws.
         (case managed_network ws of
            None \<Rightarrow> (Inl ''NoManagedNetwork'', s)
          | Some mn \<Rightarrow>
              (Inr r,
               Some (ws\<lparr>managed_network :=
                 Some (mn\<lparr>outbound_rules := outbound_rules mn @ [r]\<rparr>)\<rparr>))))),
       api_workspace_delete = (\<lambda>n d s. sample_lookup n s (\<lambda>_. (Inr (), None))) \<rparr>"

section \<open>Properties of the sweep-job document\<close>

lemma sweep_uniform_bounds:
  "uniform_bounds (search_space lightgbm_iris_sweep) = [(''learning_rate'', 1 / 100, 9 / 10)]"
  by (simp add: lightgbm_iris_sweep_def)

text \<open>
  Claim C10. The sweep-job document is well formed: its only uniform distribution,
  that of \<^verbatim>\<open>learning_rate\<close>, has \<^verbatim>\<open>min_value\<close> 0.01 strictly below \<^verbatim>\<open>max_value\<close> 0.9,
  and its limits have \<^verbatim>\<open>max_concurrent_trials\<close> 10 at most \<^verbatim>\<open>max_total_trials\<close> 20.
\<close>

theorem sweep_job_well_formed:
  "map_of (search_space lightgbm_iris_sweep) ''learning_rate'' = Some (Uniform (1 / 100) (9 / 10))
   \<and> list_all (\<lambda>(k, lo, hi). lo < hi) (uniform_bounds (search_space lightgbm_iris_sweep))
   \<and> max_concurrent_trials (job_limits lightgbm_iris_sweep) = 10
   \<and> max_total_trials (job_limits lightgbm_iris_sweep) = 20
   \<and> max_concurrent_trials (job_limits lightgbm_iris_sweep)
       \<le> max_total_trials (job_limits lightgbm_iris_sweep)"
  by (simp add: lightgbm_iris_sweep_def)

section \<open>The trace of an awaited method call\<close>

lemma await_begin_operation:
  "await (begin_operation req run as_reply) w =
     (fst (run (service w)),
      w\<lparr>service := snd (run (service w)),
        events := events w @ [Started req, Finished req (reply_of as_reply (fst (run (service w))))]\<rparr>)"
  by (simp add: await_def begin_operation_def split: prod.splits)

lemma relays_await:
  "relays_one_call (await (begin_operation req run as_reply)) req run as_reply"
  by (simp add: relays_one_call_def await_begin_operation)

lemma relays_createWorkspace:
  "relays_one_call (createWorkspace api ws) (WorkspaceCreate ws)
     (api_workspace_create api ws) ReturnedWorkspace"
  unfolding createWorkspace_def workspaces_begin_create_def by (rule relays_await)

lemma relays_updateIsolationMode:
  "relays_one_call (updateIsolationMode api ws) (WorkspaceUpdate ws)
     (api_workspace_update api ws) ReturnedWorkspace"
  unfolding updateIsolationMode_def workspaces_begin_update_def by (rule relays_await)

lemma relays_provisionNetwork:
  "relays_one_call (provisionNetwork api n) (WorkspaceProvisionNetwork n)
     (api_provision_network api n) ReturnedProvisionStatus"
  unfolding provisionNetwork_def workspaces_begin_provision_network_def by (rule relays_await)

lemma relays_addOutboundRule:
  "relays_one_call (addOutboundRule api n r) (OutboundRuleCreate n r)
     (api_outbound_rule_create api n r) ReturnedRule"
  unfolding addOutboundRule_def workspace_outbound_rules_begin_create_def by (rule relays_await)

lemma relays_getWorkspace:
  "relays_one_call (getWorkspace api n) (WorkspaceGet n)
     (api_workspace_get api n) ReturnedWorkspace"
proof -
  have "getWorkspace api n =
      await (begin_operation (WorkspaceGet n) (api_workspace_get api n) ReturnedWorkspace)"
    by (rule ext) (simp add: getWorkspace_def workspaces_get_def await_def)
  then show ?thesis by (simp add: relays_await)
qed

lemma relays_deleteWorkspace:
  "relays_one_call (deleteWorkspace api n) (WorkspaceDelete n True)
     (api_workspace_delete api n True) (\<lambda>_. ReturnedNone)"
  unfolding deleteWorkspace_def workspaces_begin_delete_def by (rule relays_await)

subsection \<open>The operations a statement performs\<close>

lemma issued_append: "issued (es @ es') = issued es @ issued es'"
  by (induction es rule: issued.induct) auto

lemma performs_and_then:
  assumes "performs m ops1" and "\<And>a. performs (f a) ops2"
  shows "performs (and_then m f) (ops1 @ ops2)"
  unfolding performs_def
proof
  fix w
  show "case fst (and_then m f w) of
          Inl e \<Rightarrow> \<exists>xs. prefix xs (ops1 @ ops2) \<and> operations_of (snd (and_then m f w)) = operations_of w @ xs
        | Inr a \<Rightarrow> operations_of (snd (and_then m f w)) = operations_of w @ ops1 @ ops2"
  proof (cases "m w")
    case (Pair out w')
    show ?thesis
    proof (cases out)
      case (Inl e)
      with Pair assms(1) obtain xs where "prefix xs ops1" "operations_of w' = operations_of w @ xs"
        by (auto simp: performs_def dest!: spec[of _ w])
      then show ?thesis using Pair Inl by (auto simp: and_then_def)
    next
      case (Inr a)
      with Pair assms(1) have 1: "operations_of w' = operations_of w @ ops1"
        by (auto simp: performs_def dest!: spec[of _ w])
      from assms(2)[of a] have 2: "case fst (f a w') of
          Inl e \<Rightarrow> \<exists>xs. prefix xs ops2 \<and> operations_of (snd (f a w')) = operations_of w' @ xs
        | Inr b \<Rightarrow> operations_of (snd (f a w')) = operations_of w' @ ops2"
        by (simp add: performs_def)
      show ?thesis
      proof (cases "fst (f a w')")
        case (Inl e)
        with 2 obtain xs where "prefix xs ops2" "operations_of (snd (f a w')) = operations_of w' @ xs"
          by auto
        then show ?thesis using Pair Inr Inl 1
          by (auto simp: and_then_def intro!: exI[of _ "ops1 @ xs"])
      next
        case (Inr b)
        with 2 show ?thesis using Pair \<open>out = Inr a\<close> 1 by (simp add: and_then_def)
      qed
    qed
  qed
qed

lemma performs_case_prod: "(\<And>a b. performs (f a b) ops) \<Longrightarrow> performs (case_prod f x) ops"
  by (cases x) simp

lemma performs_return: "performs (return a) []"
  by (simp add: performs_def return_def)

lemma performs_print: "performs (print x) []"
  by (simp add: performs_def print_def operations_of_def)

lemma performs_set_isolation_mode: "performs (set_isolation_mode ws mode) []"
  by (simp add: performs_def set_isolation_mode_def return_def raise_def split: option.splits)

lemma snd_call: "snd (call m w) = snd (m w)"
  by (simp add: call_def split: prod.splits sum.splits)

lemma events_call:
  assumes "relays_one_call operation req handler as_reply"
  shows "events (snd (call operation w)) =
    events w @ [Started req, Finished req (reply_of as_reply (fst (handler (service w))))]"
  using assms by (simp add: snd_call relays_one_call_def)

lemma performs_call:
  assumes "relays_one_call operation req handler as_reply"
  shows "performs (call operation) [operation_of req]"
  unfolding performs_def
proof
  fix w
  have "operations_of (snd (call operation w)) = operations_of w @ [operation_of req]"
    by (simp add: operations_of_def events_call[OF assms] issued_append)
  then show "case fst (call operation w) of
      Inl e \<Rightarrow> \<exists>xs. prefix xs [operation_of req]
                 \<and> operations_of (snd (call operation w)) = operations_of w @ xs
    | Inr a \<Rightarrow> operations_of (snd (call operation w)) = operations_of w @ [operation_of req]"
    by (auto split: sum.splits)
qed

lemma performs_cell_1_4: "performs (cell_1_4 api now) ([BeginCreate] @ [] @ [])"
  unfolding cell_1_4_def Let_def
  by (intro performs_and_then performs_print performs_return
      performs_call[OF relays_createWorkspace, simplified])

lemma performs_cell_1_5: "performs (cell_1_5 api n) ([Get] @ [] @ [BeginUpdate] @ [] @ [])"
  unfolding cell_1_5_def
  by (intro performs_and_then performs_print performs_return performs_set_isolation_mode
      performs_call[OF relays_getWorkspace, simplified]
      performs_call[OF relays_updateIsolationMode, simplified])

lemma performs_cell_2: "performs (cell_2 api n) ([BeginProvisionNetwork] @ [] @ [])"
  unfolding cell_2_def
  by (intro performs_and_then performs_print performs_return
      performs_call[OF relays_provisionNetwork, simplified])

lemma performs_cell_3_1: "performs (cell_3_1 api n) [BeginCreateRule ''servicetagrule'']"
  using performs_call[OF relays_addOutboundRule, of api n servicetagrule]
  by (simp add: cell_3_1_def servicetagrule_def)

lemma performs_cell_3_2: "performs (cell_3_2 api n) [BeginCreateRule ''fqdnrule'']"
  using performs_call[OF relays_addOutboundRule, of api n fqdnrule]
  by (simp add: cell_3_2_def fqdnrule_def)

lemma performs_cell_3_3: "performs (cell_3_3 api n ws) [BeginCreateRule ''privateendpointrule'']"
  using performs_call[OF relays_addOutboundRule, of api n "privateendpointrule ws"]
  by (simp add: cell_3_3_def privateendpointrule_def)

lemma performs_cell_3_4: "performs (cell_3_4 api n) ([Get] @ [] @ [])"
  unfolding cell_3_4_def
  by (intro performs_and_then performs_print performs_return
      performs_call[OF relays_getWorkspace, simplified])

lemma performs_cell_delete: "performs (cell_delete api n) [BeginDelete]"
  using performs_call[OF relays_deleteWorkspace, of api n]
  by (simp add: cell_delete_def)

lemma performs_notebook: "performs (notebook api now) reference_order"
proof -
  have "performs (notebook api now)
     (([BeginCreate] @ [] @ []) @ ([Get] @ [] @ [BeginUpdate] @ [] @ []) @
      ([BeginProvisionNetwork] @ [] @ []) @ [BeginCreateRule ''servicetagrule''] @
      [BeginCreateRule ''fqdnrule''] @ [BeginCreateRule ''privateendpointrule''] @
      ([Get] @ [] @ []) @ [BeginDelete])"
    unfolding notebook_def
    by (intro performs_and_then performs_case_prod performs_cell_1_4 performs_cell_1_5
        performs_cell_2 performs_cell_3_1 performs_cell_3_2 performs_cell_3_3
        performs_cell_3_4 performs_cell_delete)
  then show ?thesis by (simp add: reference_order_def)
qed

subsection \<open>Properties of the trace that a statement preserves\<close>

lemma preserves_and_then:
  fixes m :: "('s, 'e, 'p) world \<Rightarrow> ('x + 'a) \<times> ('s, 'e, 'p) world"
  assumes "preserves P m" and "\<And>a. preserves P (f a)"
  shows "preserves P (and_then m f)"
  unfolding preserves_def
proof (intro allI impI)
  fix w :: "('s, 'e, 'p) world"
  assume P: "P (events w)"
  show "P (events (snd (and_then m f w)))"
  proof (cases "m w")
    case (Pair out w')
    with assms(1) P have P': "P (events w')" by (auto simp: preserves_def dest!: spec[of _ w])
    show ?thesis
    proof (cases out)
      case (Inl e)
      with Pair P' show ?thesis by (simp add: and_then_def)
    next
      case (Inr a)
      with assms(2)[of a] P' have "P (events (snd (f a w')))" by (simp add: preserves_def)
      with Pair Inr show ?thesis by (simp add: and_then_def)
    qed
  qed
qed

lemma preserves_case_prod: "(\<And>a b. preserves P (f a b)) \<Longrightarrow> preserves P (case_prod f x)"
  by (cases x) simp

lemma preserves_return: "preserves P (return a)"
  by (simp add: preserves_def return_def)

lemma preserves_print: "preserves P (print x)"
  by (simp add: preserves_def print_def)

lemma preserves_set_isolation_mode: "preserves P (set_isolation_mode ws mode)"
  by (simp add: preserves_def set_isolation_mode_def return_def raise_def split: option.splits)

lemma sequential_append_pair:
  "sequential (es @ [Started req, Finished req rep]) = sequential es"
  by (induction es rule: sequential.induct) auto

lemma preserves_sequential_call:
  assumes "relays_one_call operation req handler as_reply"
  shows "preserves sequential (call operation)"
  by (simp add: preserves_def events_call[OF assms] sequential_append_pair)

lemmas relays_all = relays_createWorkspace relays_getWorkspace relays_updateIsolationMode
  relays_provisionNetwork relays_addOutboundRule relays_deleteWorkspace

lemma preserves_sequential_notebook: "preserves sequential (notebook api now)"
  unfolding notebook_def cell_1_4_def cell_1_5_def cell_2_def cell_3_1_def cell_3_2_def
    cell_3_3_def cell_3_4_def cell_delete_def Let_def
  by (intro preserves_and_then preserves_case_prod preserves_print preserves_return
      preserves_set_isolation_mode relays_all[THEN preserves_sequential_call])

lemma in_flight_sequential:
  "sequential es \<Longrightarrow> length (in_flight_after [] (take k es)) \<le> 1"
proof (induction es arbitrary: k rule: sequential.induct)
  case 1
  then show ?case by simp
next
  case (2 req req' rep es)
  show ?case
  proof (cases k)
    case 0
    then show ?thesis by simp
  next
    case (Suc j)
    show ?thesis
    proof (cases j)
      case 0
      with Suc show ?thesis by simp
    next
      case (Suc i)
      with \<open>k = Suc j\<close> 2 show ?thesis by simp
    qed
  qed
qed simp_all


text \<open>A trace in which two operations overlap is not sequential.\<close>

lemma sequential_rejects_overlap:
  "\<not> sequential [Started (WorkspaceGet a), Started (WorkspaceGet b),
      Finished (WorkspaceGet a) ReturnedNone, Finished (WorkspaceGet b) ReturnedNone]"
  by simp

text \<open>The notebook runs to its end on the sample service.\<close>

lemma sample_run:
  "fst (notebook sample_api ''202611030944'' (initial None)) = Inr ()"
  by (simp add: notebook_def cell_1_4_def cell_1_5_def cell_2_def cell_3_1_def cell_3_2_def
    cell_3_3_def cell_3_4_def cell_delete_def Let_def and_then_def call_def return_def
    print_def set_isolation_mode_def initial_def createWorkspace_def getWorkspace_def
    updateIsolationMode_def provisionNetwork_def addOutboundRule_def deleteWorkspace_def
    workspaces_begin_create_def workspaces_get_def workspaces_begin_update_def
    workspaces_begin_provision_network_def workspace_outbound_rules_begin_create_def
    workspaces_begin_delete_def await_def begin_operation_def sample_api_def sample_lookup_def
    managed_network_1_3_def)

section \<open>The order of the operations of the notebook\<close>

text \<open>
  Claim C8. The notebook runs its operations one at a time, in the order of its
  cells. Against any service, every operation of the trace finishes right after it
  has started, so at no point of the trace is more than one operation in flight;
  the operations issued are the first few of the reference order, and all of them
  in that order when the run ends without an exception.
\<close>

theorem notebook_sequential:
  "sequential (events (snd (notebook api now (initial s))))
   \<and> (\<forall>k. length (in_flight (take k (events (snd (notebook api now (initial s)))))) \<le> 1)
   \<and> prefix (operations_of (snd (notebook api now (initial s)))) reference_order
   \<and> (fst (notebook api now (initial s)) = Inr ()
        \<longrightarrow> operations_of (snd (notebook api now (initial s))) = reference_order)"
proof -
  let ?run = "notebook api now (initial s)"
  have seq: "sequential (events (snd ?run))"
    using preserves_sequential_notebook[of api now] by (simp add: preserves_def initial_def)
  have ops: "case fst ?run of
      Inl e \<Rightarrow> \<exists>xs. prefix xs reference_order \<and> operations_of (snd ?run) = xs
    | Inr a \<Rightarrow> operations_of (snd ?run) = reference_order"
    using performs_notebook[of api now]
    by (auto simp: performs_def operations_of_def initial_def dest!: spec[of _ "initial s"]
        split: sum.splits)
  have "prefix (operations_of (snd ?run)) reference_order"
    using ops by (auto split: sum.splits)
  moreover have "fst ?run = Inr () \<longrightarrow> operations_of (snd ?run) = reference_order"
    using ops by (auto split: sum.splits)
  ultimately show ?thesis
    using seq in_flight_sequential[OF seq] by (simp add: in_flight_def)
qed

theorem notebook_sequential_witness:
  "fst (notebook sample_api ''202611030944'' (initial None)) = Inr ()
   \<and> operations_of (snd (notebook sample_api ''202611030944'' (initial None))) = reference_order"
  using sample_run notebook_sequential [of sample_api "''202611030944''" None]
  by simp

end
